theory Spec2Isabelle
  imports Complex_Main "HOL-Library.Log_Nat" "HOL-Library.Multiset"
begin

section \<open>Go's float64\<close>

text \<open>
  A float64 is a finite number, one of the two infinities, or NaN. A finite value is
  carried as the real number it denotes; the two zeros are one value (nothing below
  depends on the sign of a zero). Arithmetic rounds the exact result to the nearest
  binary64 value, ties to even, as IEEE 754 does; no operation is fused.
\<close>

datatype f64 = Fin real | PInf | NInf | NaN

definition pow2 :: "int \<Rightarrow> real" where
  "pow2 e = (if 0 \<le> e then 2 ^ nat e else 1 / 2 ^ nat (- e))"

text \<open>The binary exponent of a non-zero real: \<open>pow2 (binade r) \<le> \<bar>r\<bar> < pow2 (binade r + 1)\<close>.\<close>

definition binade :: "real \<Rightarrow> int" where
  "binade r = (if 1 \<le> \<bar>r\<bar> then bitlen \<lfloor>\<bar>r\<bar>\<rfloor> - 1 else - bitlen (\<lceil>1 / \<bar>r\<bar>\<rceil> - 1))"

text \<open>Round to the nearest integer, ties to the even one.\<close>

definition rne :: "real \<Rightarrow> int" where
  "rne q = (let f = \<lfloor>q\<rfloor>; d = q - of_int f
            in if d < 1 / 2 then f
               else if 1 / 2 < d then f + 1
               else if even f then f else f + 1)"

text \<open>
  The unit in the last place of the binade of \<open>r\<close>: 52 fraction bits, and the
  subnormal spacing \<open>2^-1074\<close> below the smallest normal number \<open>2^-1022\<close>.
\<close>

definition ulp :: "real \<Rightarrow> real" where
  "ulp r = pow2 (max (binade r) (- 1022) - 52)"

definition round_real :: "real \<Rightarrow> real" where
  "round_real r = (if r = 0 then 0 else of_int (rne (r / ulp r)) * ulp r)"

definition round64 :: "real \<Rightarrow> f64" where
  "round64 r = (let v = round_real r
                in if 2 ^ 1024 \<le> v then PInf
                   else if v \<le> - (2 ^ 1024) then NInf
                   else Fin v)"

fun fneg :: "f64 \<Rightarrow> f64" where
  "fneg (Fin a) = Fin (- a)"
| "fneg PInf = NInf"
| "fneg NInf = PInf"
| "fneg NaN = NaN"

fun fadd :: "f64 \<Rightarrow> f64 \<Rightarrow> f64" where
  "fadd NaN _ = NaN"
| "fadd _ NaN = NaN"
| "fadd PInf NInf = NaN"
| "fadd NInf PInf = NaN"
| "fadd PInf _ = PInf"
| "fadd _ PInf = PInf"
| "fadd NInf _ = NInf"
| "fadd _ NInf = NInf"
| "fadd (Fin a) (Fin b) = round64 (a + b)"

definition fsub :: "f64 \<Rightarrow> f64 \<Rightarrow> f64" where
  "fsub x y = fadd x (fneg y)"

text \<open>The sign of a product with an infinity; an infinity times zero is NaN.\<close>

definition inf_times :: "bool \<Rightarrow> real \<Rightarrow> f64" where
  "inf_times pos a = (if a = 0 then NaN else if (0 < a) = pos then PInf else NInf)"

fun fmul :: "f64 \<Rightarrow> f64 \<Rightarrow> f64" where
  "fmul NaN _ = NaN"
| "fmul _ NaN = NaN"
| "fmul PInf PInf = PInf"
| "fmul PInf NInf = NInf"
| "fmul NInf PInf = NInf"
| "fmul NInf NInf = PInf"
| "fmul PInf (Fin b) = inf_times True b"
| "fmul NInf (Fin b) = inf_times False b"
| "fmul (Fin a) PInf = inf_times True a"
| "fmul (Fin a) NInf = inf_times False a"
| "fmul (Fin a) (Fin b) = round64 (a * b)"

text \<open>Comparisons: every comparison with NaN is false.\<close>

fun flt :: "f64 \<Rightarrow> f64 \<Rightarrow> bool" where
  "flt NaN _ = False"
| "flt _ NaN = False"
| "flt PInf _ = False"
| "flt _ NInf = False"
| "flt NInf _ = True"
| "flt _ PInf = True"
| "flt (Fin a) (Fin b) = (a < b)"

fun fle :: "f64 \<Rightarrow> f64 \<Rightarrow> bool" where
  "fle NaN _ = False"
| "fle _ NaN = False"
| "fle NInf _ = True"
| "fle _ PInf = True"
| "fle PInf _ = False"
| "fle _ NInf = False"
| "fle (Fin a) (Fin b) = (a \<le> b)"

text \<open>The conversion \<open>float64(n)\<close> of an int.\<close>

definition float64 :: "int \<Rightarrow> f64" where
  "float64 n = round64 (of_int n)"

text \<open>
  \<open>math.Min\<close> and \<open>math.Max\<close>: an infinity of the matching sign wins, then NaN, then
  the comparison.
\<close>

definition math_Min :: "f64 \<Rightarrow> f64 \<Rightarrow> f64" where
  "math_Min x y = (if x = NInf \<or> y = NInf then NInf
                   else if x = NaN \<or> y = NaN then NaN
                   else if flt x y then x else y)"

definition math_Max :: "f64 \<Rightarrow> f64 \<Rightarrow> f64" where
  "math_Max x y = (if x = PInf \<or> y = PInf then PInf
                   else if x = NaN \<or> y = NaN then NaN
                   else if flt y x then x else y)"


section \<open>The score engine of \<open>handleCalculate\<close>\<close>

text \<open>
  The local variables of the handler, in its order of evaluation. \<open>deadlines\<close> and
  \<open>stress\<close> are Go ints; the program only converts them to float64, compares them and
  prints them, so they are carried as integers and nothing wraps around.
\<close>

definition sleepPenalty :: "f64 \<Rightarrow> f64" where
  "sleepPenalty sleep = fmul (fsub (Fin 8) sleep) (Fin 8)"

definition exerciseBonus :: "bool \<Rightarrow> f64" where
  "exerciseBonus exercise = (if exercise then Fin 10 else Fin 0)"

definition rawScore :: "f64 \<Rightarrow> f64 \<Rightarrow> int \<Rightarrow> int \<Rightarrow> bool \<Rightarrow> f64" where
  "rawScore sleep studyHours deadlines stress exercise =
     fsub (fadd (fadd (fadd (fmul (float64 deadlines) (Fin 10))
                            (fmul (float64 stress) (Fin 12)))
                      (sleepPenalty sleep))
                (fmul studyHours (Fin 3)))
          (exerciseBonus exercise)"

definition score_of :: "f64 \<Rightarrow> f64 \<Rightarrow> int \<Rightarrow> int \<Rightarrow> bool \<Rightarrow> f64" where
  "score_of sleep studyHours deadlines stress exercise =
     math_Max (Fin 0) (math_Min (Fin 100) (rawScore sleep studyHours deadlines stress exercise))"

text \<open>
  The level labels begin with a coloured-circle emoji; a Go string holds its UTF-8
  bytes.
\<close>

definition level_Healthy :: string where
  "level_Healthy = [CHR 0xF0, CHR 0x9F, CHR 0x9F, CHR 0xA2] @ '' Healthy''"

definition level_AtRisk :: string where
  "level_AtRisk = [CHR 0xF0, CHR 0x9F, CHR 0x9F, CHR 0xA1] @ '' At Risk''"

definition level_HighRisk :: string where
  "level_HighRisk = [CHR 0xF0, CHR 0x9F, CHR 0x9F, CHR 0xA0] @ '' High Risk''"

definition level_Severe :: string where
  "level_Severe = [CHR 0xF0, CHR 0x9F, CHR 0x94, CHR 0xB4] @ '' Severe Burnout''"

text \<open>The three variables \<open>level\<close>, \<open>colorClass\<close> and \<open>barColor\<close> set by the category chain.\<close>

definition category :: "f64 \<Rightarrow> string \<times> string \<times> string" where
  "category score =
     (if fle score (Fin 30) then (level_Healthy, ''text-green-600'', ''bg-green-500'')
      else if fle score (Fin 60) then (level_AtRisk, ''text-yellow-600'', ''bg-yellow-500'')
      else if fle score (Fin 80) then (level_HighRisk, ''text-orange-600'', ''bg-orange-500'')
      else (level_Severe, ''text-red-600'', ''bg-red-600''))"

definition level_of :: "f64 \<Rightarrow> string" where
  "level_of score = fst (category score)"

section \<open>\<open>generateAIAdvice\<close>\<close>

definition digit_char :: "nat \<Rightarrow> char" where
  "digit_char d = char_of (48 + d)"

fun show_nat :: "nat \<Rightarrow> string" where
  "show_nat n = (if n < 10 then [digit_char n] else show_nat (n div 10) @ [digit_char (n mod 10)])"

text \<open>The verb \<open>%d\<close> of \<open>fmt.Sprintf\<close>.\<close>

definition show_int :: "int \<Rightarrow> string" where
  "show_int i = (if i < 0 then CHR ''-'' # show_nat (nat (- i)) else show_nat (nat i))"

definition intro :: "string list" where
  "intro = [''Based on your current workload patterns,'',
            ''Analyzing your physiological and academic inputs,'',
            ''Correlating your sleep data with stress levels,'',
            ''My assessment of your current state suggests'']"

definition advice_body :: "int \<Rightarrow> f64 \<Rightarrow> string" where
  "advice_body deadlines score =
     (if flt (Fin 80) score then
        ''your system is in critical overdrive. The combination of high stress and sleep deprivation is unsustainable. Your cognitive performance is likely degrading.''
      else if flt (Fin 60) score then
        ''you are navigating a high-pressure zone. Managing '' @ show_int deadlines @
        '' deadlines with elevated stress is depleting your reserves faster than you can recover.''
      else if flt (Fin 30) score then
        ''you are maintaining functionality but showing early signs of friction. Your sleep schedule needs slight optimization to buffer against upcoming deadlines.''
      else
        ''you have achieved an optimal balance between academic rigor and personal recovery. Your resilience metrics are currently peak.'')"

definition advice_action :: "f64 \<Rightarrow> int \<Rightarrow> int \<Rightarrow> string" where
  "advice_action sleep deadlines stress =
     (if flt sleep (Fin 5) then
        ''Immediate Priority: Disconnect 1 hour before bed to reclaim REM cycles.''
      else if 3 < stress then
        ''Suggestion: Implement the Pomodoro technique (25/5) to fragment stress accumulation.''
      else if 4 < deadlines then
        ''Strategy: Triage your deadlines; ask for extensions on low-priority tasks.''
      else
        ''Recommendation: Maintain current routine but monitor hydration levels.'')"

text \<open>
  \<open>selected\<close> is the index that \<open>rand.Intn(len(intro))\<close> returned, below 4. The three
  parts are joined as \<open>fmt.Sprintf("%s %s %s", ...)\<close> does.
\<close>

definition generateAIAdvice :: "nat \<Rightarrow> f64 \<Rightarrow> int \<Rightarrow> int \<Rightarrow> f64 \<Rightarrow> string" where
  "generateAIAdvice selected sleep deadlines stress score =
     intro ! selected @ '' '' @ advice_body deadlines score @ '' '' @
     advice_action sleep deadlines stress"


declare show_nat.simps [simp del]

section \<open>The entries table\<close>

text \<open>
  \<open>created_at\<close> defaults to \<open>CURRENT_TIMESTAMP\<close>, which has a resolution of one second:
  a timestamp is a number of seconds (UTC). A REAL column holds a number or NULL
  (\<open>None\<close>); SQLite stores a NaN that is bound to a statement as NULL.
\<close>

type_synonym timestamp = nat

record entry =
  col_id :: int
  col_created_at :: timestamp
  col_sleep :: "f64 option"
  col_study_hours :: "f64 option"
  col_deadlines :: int
  col_mood :: int
  col_stress :: int
  col_exercise :: bool
  col_score :: "f64 option"
  col_level :: string
  col_advice :: string

text \<open>
  The database file: the rows of \<open>entries\<close> in insertion order (\<open>None\<close> when the table does
  not exist) and the AUTOINCREMENT counter of the table.
\<close>

record store =
  entries :: "entry list option"
  seq :: int

text \<open>
  Every statement can fail in the storage engine (I/O, locking); \<open>fault\<close> is the engine's
  error message for this statement when it does.
\<close>

definition exec_drop :: "string option \<Rightarrow> store \<Rightarrow> string + store" where
  \<comment> \<open>\<open>DROP TABLE IF EXISTS entries\<close>\<close>
  "exec_drop fault db =
     (case fault of Some e \<Rightarrow> Inl e
      | None \<Rightarrow> Inr (db\<lparr>entries := None, seq := 0\<rparr>))"

definition exec_create :: "string option \<Rightarrow> store \<Rightarrow> string + store" where
  \<comment> \<open>\<open>CREATE TABLE IF NOT EXISTS entries (...)\<close>\<close>
  "exec_create fault db =
     (case fault of Some e \<Rightarrow> Inl e
      | None \<Rightarrow> (case entries db of None \<Rightarrow> Inr (db\<lparr>entries := Some []\<rparr>)
                 | Some rows \<Rightarrow> Inr db))"

definition runMigrations :: "string option \<Rightarrow> string option \<Rightarrow> store \<Rightarrow> string + store" where
  "runMigrations dropFault createFault db =
     (case exec_drop dropFault db of Inl err \<Rightarrow> Inl err
      | Inr db1 \<Rightarrow> exec_create createFault db1)"

text \<open>
  The start of \<open>main\<close>: open the database, run the migration, and serve; either error is
  fatal.
\<close>

datatype process = Fatal string | Serving store

definition main :: "string option \<Rightarrow> string option \<Rightarrow> string option \<Rightarrow> store \<Rightarrow> process" where
  "main openFault dropFault createFault db =
     (case openFault of Some err \<Rightarrow> Fatal err
      | None \<Rightarrow> (case runMigrations dropFault createFault db of Inl err \<Rightarrow> Fatal err
                 | Inr db1 \<Rightarrow> Serving db1))"

definition bind_real :: "f64 \<Rightarrow> f64 option" where
  "bind_real x = (if x = NaN then None else Some x)"

text \<open>The values of one INSERT, in the order of the statement.\<close>

record submission =
  in_sleep :: f64
  in_studyHours :: f64
  in_deadlines :: int
  in_mood :: int
  in_stress :: int
  in_exercise :: bool

definition exec_insert ::
  "string option \<Rightarrow> timestamp \<Rightarrow> submission \<Rightarrow> f64 \<Rightarrow> string \<Rightarrow> string \<Rightarrow> store \<Rightarrow> string + store" where
  "exec_insert fault now inp score level advice db =
     (case fault of Some e \<Rightarrow> Inl e
      | None \<Rightarrow>
         (case entries db of None \<Rightarrow> Inl ''no such table: entries''
          | Some rows \<Rightarrow>
              Inr (db\<lparr>entries := Some (rows @
                          [\<lparr>col_id = seq db + 1, col_created_at = now,
                            col_sleep = bind_real (in_sleep inp),
                            col_study_hours = bind_real (in_studyHours inp),
                            col_deadlines = in_deadlines inp, col_mood = in_mood inp,
                            col_stress = in_stress inp, col_exercise = in_exercise inp,
                            col_score = bind_real score, col_level = level,
                            col_advice = advice\<rparr>]),
                      seq := seq db + 1\<rparr>)))"

section \<open>\<open>handleCalculate\<close>\<close>

record request =
  Method :: string
  FormValue :: "string \<Rightarrow> string"

text \<open>
  What the handler takes from outside the program: the two parsers of package strconv
  (a value and the error, if any), the index drawn by \<open>rand.Intn\<close>, the storage
  engine's fault for the INSERT, and the engine's clock.
\<close>

datatype NumError = ErrSyntax | ErrRange

record world =
  ParseFloat :: "string \<Rightarrow> f64 \<times> NumError option"
  Atoi :: "string \<Rightarrow> int \<times> NumError option"
  Intn :: "nat \<Rightarrow> nat"
  insertFault :: "string option"
  clock :: timestamp

text \<open>
  The values that the result fragment interpolates; its markup, the rotation of the
  gauge and the date of the report are presentation and are left out.
\<close>

record fragment =
  frag_barColor :: string
  frag_colorClass :: string
  frag_score :: f64
  frag_level :: string
  frag_advice :: string
  frag_sleep :: f64
  frag_deadlines :: int
  frag_stress :: int
  frag_exerciseStr :: string
  frag_resetPlan :: bool

record ChartData =
  Labels :: "string list"
  Data :: "f64 list"

datatype response = HttpError nat string | HtmlFragment fragment | JsonChart ChartData

definition status :: "response \<Rightarrow> nat" where
  "status r = (case r of HttpError code msg \<Rightarrow> code | HtmlFragment f \<Rightarrow> 200 | JsonChart c \<Rightarrow> 200)"

text \<open>The form is parsed with every error dropped (\<open>sleep, _ := ...\<close>).\<close>

definition parseForm :: "world \<Rightarrow> request \<Rightarrow> submission" where
  "parseForm w r =
     \<lparr>in_sleep = fst (ParseFloat w (FormValue r ''sleep'')),
      in_studyHours = fst (ParseFloat w (FormValue r ''study'')),
      in_deadlines = fst (Atoi w (FormValue r ''deadlines'')),
      in_mood = fst (Atoi w (FormValue r ''mood'')),
      in_stress = fst (Atoi w (FormValue r ''stress'')),
      in_exercise = (FormValue r ''exercise'' = ''on'')\<rparr>"

definition handleCalculate :: "world \<Rightarrow> request \<Rightarrow> store \<Rightarrow> response \<times> store" where
  "handleCalculate w r db =
     (if Method r \<noteq> ''POST'' then (HttpError 405 ''Method not allowed'', db)
      else
        let inp = parseForm w r;
            score = score_of (in_sleep inp) (in_studyHours inp) (in_deadlines inp)
                      (in_stress inp) (in_exercise inp);
            (level, colorClass, barColor) = category score;
            advice = generateAIAdvice (Intn w (length intro)) (in_sleep inp)
                       (in_deadlines inp) (in_stress inp) score
        in case exec_insert (insertFault w) (clock w) inp score level advice db of
             Inl err \<Rightarrow> (HttpError 500 err, db)
           | Inr db1 \<Rightarrow>
               (HtmlFragment
                  \<lparr>frag_barColor = barColor, frag_colorClass = colorClass,
                   frag_score = score, frag_level = level, frag_advice = advice,
                   frag_sleep = in_sleep inp, frag_deadlines = in_deadlines inp,
                   frag_stress = in_stress inp,
                   frag_exerciseStr = (if in_exercise inp then ''Yes'' else ''No''),
                   frag_resetPlan = flt (Fin 80) score\<rparr>,
                db1))"

section \<open>\<open>handleChartData\<close>\<close>

text \<open>
  The query sorts twice. SQL leaves the order of rows with equal keys to the engine, so
  the engine's two sorts are taken as they come: \<open>order_desc\<close> for
  \<open>ORDER BY created_at DESC\<close> over the table and \<open>order_asc\<close> for
  \<open>ORDER BY created_at ASC\<close> over the selected pairs. \<open>sorts\<close> says what SQL
  promises of them.
\<close>

type_synonym series_row = "timestamp \<times> f64 option"

record engine =
  order_desc :: "entry list \<Rightarrow> entry list"
  order_asc :: "series_row list \<Rightarrow> series_row list"
  queryFault :: "string option"
  delivered :: nat

definition sorts :: "engine \<Rightarrow> bool" where
  "sorts eng \<longleftrightarrow>
     (\<forall>rows. mset (order_desc eng rows) = mset rows \<and>
             sorted_wrt (\<lambda>a b. col_created_at b \<le> col_created_at a) (order_desc eng rows)) \<and>
     (\<forall>ps. mset (order_asc eng ps) = mset ps \<and> sorted (map fst (order_asc eng ps)))"

definition recent :: "engine \<Rightarrow> entry list \<Rightarrow> entry list" where
  \<comment> \<open>\<open>FROM entries ORDER BY created_at DESC LIMIT 10\<close>\<close>
  "recent eng rows = take 10 (order_desc eng rows)"

definition RecentSeries :: "engine \<Rightarrow> entry list \<Rightarrow> series_row list" where
  "RecentSeries eng rows =
     order_asc eng (map (\<lambda>e. (col_created_at e, col_score e)) (recent eng rows))"

definition db_Query :: "engine \<Rightarrow> store \<Rightarrow> string + series_row list" where
  "db_Query eng db =
     (case queryFault eng of Some e \<Rightarrow> Inl e
      | None \<Rightarrow> (case entries db of None \<Rightarrow> Inl ''no such table: entries''
                 | Some rows \<Rightarrow> Inr (RecentSeries eng rows)))"

text \<open>\<open>rows.Scan(&t, &s)\<close>: a NULL does not convert to a float64.\<close>

definition Scan :: "series_row \<Rightarrow> string + (timestamp \<times> f64)" where
  "Scan row = (case snd row of None \<Rightarrow> Inl ''converting NULL to float64 is unsupported''
               | Some s \<Rightarrow> Inr (fst row, s))"

definition two_digits :: "nat \<Rightarrow> string" where
  "two_digits n = [digit_char (n div 10), digit_char (n mod 10)]"

text \<open>\<open>t.Format("15:04")\<close>: the hour and the minute of the day.\<close>

definition Format_1504 :: "timestamp \<Rightarrow> string" where
  "Format_1504 t = two_digits (t div 3600 mod 24) @ '':'' @ two_digits (t div 60 mod 60)"

text \<open>The loop over the rows, with the two slices as its state.\<close>

fun scan_rows :: "series_row list \<Rightarrow> string list \<times> f64 list \<Rightarrow> string list \<times> f64 list" where
  "scan_rows [] acc = acc"
| "scan_rows (row # rest) (labels, data) =
     (case Scan row of
        Inl err \<Rightarrow> scan_rows rest (labels, data)
      | Inr (t, s) \<Rightarrow> scan_rows rest (labels @ [Format_1504 t], data @ [s]))"

text \<open>
  \<open>encoding/json\<close> refuses an infinity or a NaN, with an error that names the first
  such value.
\<close>

definition json_ok :: "f64 \<Rightarrow> bool" where
  "json_ok x = (case x of Fin a \<Rightarrow> True | _ \<Rightarrow> False)"

definition json_error :: "f64 \<Rightarrow> string" where
  "json_error x =
     ''json: unsupported value: '' @
     (case x of PInf \<Rightarrow> ''+Inf'' | NInf \<Rightarrow> ''-Inf'' | _ \<Rightarrow> ''NaN'')"

text \<open>
  \<open>rows.Next()\<close> ends the loop at the end of the rows or at an error of the cursor;
  \<open>delivered\<close> is the number of rows it hands out before such an error (any number from
  the length of the result on when there is none).
\<close>

definition handleChartData :: "engine \<Rightarrow> store \<Rightarrow> response" where
  "handleChartData eng db =
     (case db_Query eng db of
        Inl err \<Rightarrow> HttpError 500 err
      | Inr rows \<Rightarrow>
          let (labels, data) = scan_rows (take (delivered eng) rows) ([], [])
          in (case find (\<lambda>x. \<not> json_ok x) data of
                None \<Rightarrow> JsonChart \<lparr>Labels = labels, Data = data\<rparr>
              | Some x \<Rightarrow> HttpError 500 (json_error x)))"

section \<open>The specification's formulas\<close>

text \<open>
  The score as the specification writes it: the raw score of the formula, clamped
  to \<open>[0, 100]\<close>.
\<close>

definition spec_clamp :: "f64 \<Rightarrow> f64 \<Rightarrow> f64 \<Rightarrow> f64" where
  "spec_clamp x lo hi = (if flt x lo then lo else if flt hi x then hi else x)"

definition spec_score :: "f64 \<Rightarrow> f64 \<Rightarrow> int \<Rightarrow> int \<Rightarrow> bool \<Rightarrow> f64" where
  "spec_score sleep studyHours deadlines stress exercise =
     spec_clamp
       (fsub (fadd (fadd (fadd (fmul (float64 deadlines) (Fin 10)) (fmul (float64 stress) (Fin 12)))
                         (fmul (fsub (Fin 8) sleep) (Fin 8)))
                   (fmul studyHours (Fin 3)))
             (if exercise then Fin 10 else Fin 0))
       (Fin 0) (Fin 100)"

text \<open>The recommendation as the specification orders its rules.\<close>

datatype action_kind = SleepAction | StressAction | TriageAction | MaintenanceAction

definition spec_action_kind :: "f64 \<Rightarrow> int \<Rightarrow> int \<Rightarrow> action_kind" where
  "spec_action_kind sleep deadlines stress =
     (if flt sleep (Fin 5) then SleepAction
      else if stress > 3 then StressAction
      else if deadlines > 4 then TriageAction
      else MaintenanceAction)"

definition action_text :: "action_kind \<Rightarrow> string" where
  "action_text k =
     (case k of
        SleepAction \<Rightarrow> ''Immediate Priority: Disconnect 1 hour before bed to reclaim REM cycles.''
      | StressAction \<Rightarrow> ''Suggestion: Implement the Pomodoro technique (25/5) to fragment stress accumulation.''
      | TriageAction \<Rightarrow> ''Strategy: Triage your deadlines; ask for extensions on low-priority tasks.''
      | MaintenanceAction \<Rightarrow> ''Recommendation: Maintain current routine but monitor hydration levels.'')"

section \<open>Notions used in the statements\<close>

text \<open>
  \<open>x\<close> is not above \<open>y\<close>, or one of them is NaN: the order that the arithmetic
  preserves, NaN being passed on by every operation.
\<close>

definition mle :: "f64 \<Rightarrow> f64 \<Rightarrow> bool" where
  "mle x y \<longleftrightarrow> x = NaN \<or> y = NaN \<or> fle x y"

text \<open>What package strconv documents of a syntax error: the value returned with it is 0.\<close>

definition strconv_contract :: "world \<Rightarrow> bool" where
  "strconv_contract w \<longleftrightarrow>
     (\<forall>s. snd (ParseFloat w s) = Some ErrSyntax \<longrightarrow> fst (ParseFloat w s) = Fin 0) \<and>
     (\<forall>s. snd (Atoi w s) = Some ErrSyntax \<longrightarrow> fst (Atoi w s) = 0)"

text \<open>The rows of a result that \<open>Scan\<close> decodes, in order.\<close>

fun decodable :: "series_row list \<Rightarrow> (timestamp \<times> f64) list" where
  "decodable [] = []"
| "decodable ((t, None) # rest) = decodable rest"
| "decodable ((t, Some s) # rest) = (t, s) # decodable rest"

text \<open>A store with the mood column blanked, to compare two stores up to that column.\<close>

definition forget_mood :: "store \<Rightarrow> store" where
  "forget_mood db = db\<lparr>entries := map_option (map (\<lambda>e. e\<lparr>col_mood := 0\<rparr>)) (entries db)\<rparr>"

section \<open>Sample inputs\<close>

text \<open>\<open>r.FormValue\<close> over a list of fields: a missing field reads as the empty string.\<close>

definition form_of :: "(string \<times> string) list \<Rightarrow> string \<Rightarrow> string" where
  "form_of kvs k = (case map_of kvs k of None \<Rightarrow> [] | Some v \<Rightarrow> v)"

text \<open>A parser for a handful of texts, every other text being a syntax error.\<close>

definition sample_world :: world where
  "sample_world =
     \<lparr>ParseFloat = (\<lambda>s. if s = ''0'' then (Fin 0, None)
                         else if s = ''7'' then (Fin 7, None)
                         else if s = ''20'' then (Fin 20, None)
                         else if s = ''NaN'' then (NaN, None)
                         else (Fin 0, Some ErrSyntax)),
      Atoi = (\<lambda>s. if s = ''0'' then (0, None)
                   else if s = ''2'' then (2, None)
                   else if s = ''5'' then (5, None)
                   else if s = ''10'' then (10, None)
                   else (0, Some ErrSyntax)),
      Intn = (\<lambda>n. 0),
      insertFault = None,
      clock = 47225\<rparr>"

definition sample_row :: "int \<Rightarrow> timestamp \<Rightarrow> f64 option \<Rightarrow> entry" where
  "sample_row i t sc =
     \<lparr>col_id = i, col_created_at = t, col_sleep = Some (Fin 7), col_study_hours = Some (Fin 0),
      col_deadlines = 0, col_mood = 3, col_stress = 0, col_exercise = False,
      col_score = sc, col_level = level_Healthy, col_advice = []\<rparr>"

definition sample_store :: store where
  "sample_store =
     \<lparr>entries = Some [sample_row 1 47000 (Some (Fin 8)), sample_row 2 47100 None,
                      sample_row 3 47100 (Some (Fin 30))],
      seq = 3\<rparr>"

definition twelve_rows :: "entry list" where
  "twelve_rows =
     map (\<lambda>i. sample_row (int i) (47000 + 60 * i) (Some (Fin (real i))))
       [1, 2, 3, 4, 5, 6, 7, 8, 9, 10, 11, 12]"

text \<open>An engine whose sorts are stable insertion sorts, and whose cursor never fails.\<close>

definition sample_engine :: engine where
  "sample_engine =
     \<lparr>order_desc = (\<lambda>rows. rev (sort_key col_created_at rows)),
      order_asc = sort_key fst,
      queryFault = None,
      delivered = 10\<rparr>"

section \<open>Rounding to binary64\<close>

lemma pow2_powi: "pow2 e = 2 powi e"
  by (simp add: pow2_def power_int_def power_one_over [symmetric] inverse_eq_divide)

lemma pow2_pos [simp]: "0 < pow2 e"
  by (simp add: pow2_powi)

lemma pow2_nz [simp]: "pow2 e \<noteq> 0"
  using pow2_pos [of e] by linarith

lemma pow2_add: "pow2 (a + b) = pow2 a * pow2 b"
  by (simp add: pow2_powi power_int_add)

lemma pow2_mono: "a \<le> b \<Longrightarrow> pow2 a \<le> pow2 b"
  by (simp add: pow2_powi power_int_increasing)

lemma pow2_strict_mono: "a < b \<Longrightarrow> pow2 a < pow2 b"
  by (simp add: pow2_powi power_int_strict_increasing)

lemma pow2_nat: "pow2 (int n) = 2 ^ n"
  by (simp add: pow2_def)

lemma binade_bounds:
  assumes "r \<noteq> 0"
  shows "pow2 (binade r) \<le> \<bar>r\<bar> \<and> \<bar>r\<bar> < pow2 (binade r + 1)"
proof (cases "1 \<le> \<bar>r\<bar>")
  case True
  define n where "n = \<lfloor>\<bar>r\<bar>\<rfloor>"
  have n1: "1 \<le> n" using True by (simp add: n_def le_floor_iff)
  have b: "2 ^ nat (bitlen n - 1) \<le> n" "n < 2 ^ nat (bitlen n)"
    using bitlen_bounds [of n] n1 by auto
  have bl: "1 \<le> bitlen n" using n1 by (simp add: bitlen_alt_def)
  have e: "binade r = bitlen n - 1" using True by (simp add: binade_def n_def)
  have "pow2 (bitlen n - 1) = (2::real) ^ nat (bitlen n - 1)" using bl by (simp add: pow2_def)
  also have "\<dots> \<le> real_of_int n"
    using b(1) by (metis of_int_le_iff of_int_numeral of_int_power)
  also have "\<dots> \<le> \<bar>r\<bar>" by (simp add: n_def)
  finally have lo: "pow2 (binade r) \<le> \<bar>r\<bar>" by (simp add: e)
  have "n + 1 \<le> 2 ^ nat (bitlen n)" using b(2) by simp
  then have "real_of_int (n + 1) \<le> (2::real) ^ nat (bitlen n)"
    by (metis of_int_le_iff of_int_numeral of_int_power)
  moreover have "\<bar>r\<bar> < real_of_int (n + 1)" by (simp add: n_def)
  moreover have "pow2 (binade r + 1) = 2 ^ nat (bitlen n)" using bl by (simp add: pow2_def e)
  ultimately have "\<bar>r\<bar> < pow2 (binade r + 1)" by simp
  with lo show ?thesis by simp
next
  case False
  define y where "y = 1 / \<bar>r\<bar>"
  define m where "m = \<lceil>y\<rceil> - 1"
  have rpos: "0 < \<bar>r\<bar>" using assms by simp
  have y1: "1 < y" using False rpos by (simp add: y_def)
  have m1: "1 \<le> m" using y1 by (simp add: m_def less_ceiling_iff)
  have b: "2 ^ nat (bitlen m - 1) \<le> m" "m < 2 ^ nat (bitlen m)"
    using bitlen_bounds [of m] m1 by auto
  have bl: "1 \<le> bitlen m" using m1 by (simp add: bitlen_alt_def)
  have e: "binade r = - bitlen m" using False by (simp add: binade_def m_def y_def)
  have r_y: "\<bar>r\<bar> = 1 / y" using rpos by (simp add: y_def)
  have "m + 1 \<le> 2 ^ nat (bitlen m)" using b(2) by simp
  then have "real_of_int (m + 1) \<le> (2::real) ^ nat (bitlen m)"
    by (metis of_int_le_iff of_int_numeral of_int_power)
  moreover have "y \<le> real_of_int (m + 1)" by (simp add: m_def)
  ultimately have yle: "y \<le> (2::real) ^ nat (bitlen m)" by linarith
  have "pow2 (binade r) = 1 / 2 ^ nat (bitlen m)" using bl by (simp add: pow2_def e)
  also have "\<dots> \<le> 1 / y" using yle y1 by (simp add: frac_le)
  finally have lo: "pow2 (binade r) \<le> \<bar>r\<bar>" by (simp add: r_y)
  have "real_of_int m < y" by (simp add: m_def) linarith
  moreover have "(2::real) ^ nat (bitlen m - 1) \<le> real_of_int m"
    using b(1) by (metis of_int_le_iff of_int_numeral of_int_power)
  ultimately have ygt: "(2::real) ^ nat (bitlen m - 1) < y" by linarith
  have "pow2 (binade r + 1) = 1 / 2 ^ nat (bitlen m - 1)"
    using bl by (auto simp add: pow2_def e)
  moreover have "1 / y < 1 / 2 ^ nat (bitlen m - 1)"
    using ygt by (simp add: frac_less2)
  ultimately have "\<bar>r\<bar> < pow2 (binade r + 1)" by (simp add: r_y)
  with lo show ?thesis by simp
qed

lemma binade_unique:
  assumes "pow2 e \<le> \<bar>r\<bar>" "\<bar>r\<bar> < pow2 (e + 1)"
  shows "binade r = e"
proof -
  have "0 < \<bar>r\<bar>" using assms(1) pow2_pos [of e] by linarith
  then have r0: "r \<noteq> 0" by simp
  note b = binade_bounds [OF r0]
  have "\<not> binade r < e"
  proof
    assume "binade r < e"
    then have "pow2 (binade r + 1) \<le> pow2 e" by (intro pow2_mono) simp
    with b assms show False by linarith
  qed
  moreover have "\<not> e < binade r"
  proof
    assume "e < binade r"
    then have "pow2 (e + 1) \<le> pow2 (binade r)" by (intro pow2_mono) simp
    with b assms show False by linarith
  qed
  ultimately show ?thesis by simp
qed

lemma binade_mono:
  assumes "a \<noteq> 0" "\<bar>a\<bar> \<le> \<bar>b\<bar>"
  shows "binade a \<le> binade b"
proof (rule ccontr)
  assume "\<not> binade a \<le> binade b"
  then have "pow2 (binade b + 1) \<le> pow2 (binade a)" by (intro pow2_mono) simp
  moreover have "b \<noteq> 0" using assms by auto
  ultimately show False
    using binade_bounds [OF assms(1)] binade_bounds [OF \<open>b \<noteq> 0\<close>] assms(2) by linarith
qed

lemma binade_minus [simp]: "binade (- r) = binade r"
  by (simp add: binade_def)


lemma rne_cases:
  "rne q = \<lfloor>q\<rfloor> \<or> rne q = \<lfloor>q\<rfloor> + 1"
  by (simp add: rne_def Let_def)

lemma rne_of_int [simp]: "rne (of_int n) = n"
  by (simp add: rne_def)

lemma rne_ge: "of_int n \<le> q \<Longrightarrow> n \<le> rne q"
  using rne_cases [of q] by (auto simp: le_floor_iff) linarith

lemma rne_le:
  assumes "q \<le> of_int n"
  shows "rne q \<le> n"
proof (cases "q = of_int n")
  case True
  then show ?thesis by simp
next
  case False
  with assms have "q < of_int n" by simp
  then have "\<lfloor>q\<rfloor> < n" by (simp add: floor_less_iff)
  then show ?thesis using rne_cases [of q] by auto
qed

lemma rne_mono:
  assumes "q \<le> q'"
  shows "rne q \<le> rne q'"
proof (cases "\<lfloor>q\<rfloor> = \<lfloor>q'\<rfloor>")
  case True
  then show ?thesis using assms by (auto simp: rne_def Let_def)
next
  case False
  with assms have "\<lfloor>q\<rfloor> < \<lfloor>q'\<rfloor>" using floor_mono [OF assms] by simp
  then have "\<lfloor>q\<rfloor> + 1 \<le> \<lfloor>q'\<rfloor>" by simp
  then show ?thesis using rne_cases [of q] rne_cases [of q'] by auto
qed

lemma rne_minus: "rne (- q) = - rne q"
proof (cases "q = of_int \<lfloor>q\<rfloor>")
  case True
  then have "rne (- q) = rne (of_int (- \<lfloor>q\<rfloor>))" by simp
  also have "\<dots> = - \<lfloor>q\<rfloor>" by (simp only: rne_of_int)
  also have "\<dots> = - rne (of_int \<lfloor>q\<rfloor>)" by (simp only: rne_of_int)
  finally show ?thesis using True by simp
next
  case False
  then have f: "\<lfloor>- q\<rfloor> = - \<lfloor>q\<rfloor> - 1"
    by (metis ceiling_altdef ceiling_def minus_diff_eq minus_minus uminus_add_conv_diff)
  have lt: "of_int \<lfloor>q\<rfloor> < q" using False of_int_floor_le [of q] by linarith
  show ?thesis
    using lt by (auto simp add: rne_def Let_def f)
qed


lemma pow2_diff: "pow2 (a - b) = pow2 a / pow2 b"
  by (simp add: pow2_powi power_int_diff)

lemma ulp_pos [simp]: "0 < ulp r"
  by (simp add: ulp_def)

lemma ulp_nonneg [simp]: "0 \<le> ulp r"
  using ulp_pos [of r] by linarith

lemma ulp_nz [simp]: "ulp r \<noteq> 0"
  using ulp_pos [of r] by linarith

lemma ulp_minus [simp]: "ulp (- r) = ulp r"
  by (simp add: ulp_def)

lemma round_real_minus: "round_real (- r) = - round_real r"
  by (simp add: round_real_def rne_minus)

lemma round_real_nonneg:
  assumes "0 \<le> r"
  shows "0 \<le> round_real r"
proof -
  have "real_of_int 0 \<le> r / ulp r" using assms by simp
  then have "0 \<le> rne (r / ulp r)" by (rule rne_ge)
  then show ?thesis by (simp add: round_real_def)
qed

lemma div_eq_mult: "u \<noteq> 0 \<Longrightarrow> x / u = c \<Longrightarrow> c * u = (x::real)"
  by auto

lemma round_real_mono_pos:
  assumes "0 < a" "a \<le> b"
  shows "round_real a \<le> round_real b"
proof -
  define ea where "ea = max (binade a) (- 1022)"
  define eb where "eb = max (binade b) (- 1022)"
  have a0: "a \<noteq> 0" and b0: "b \<noteq> 0" and bpos: "0 < b" using assms by auto
  have bin: "binade a \<le> binade b" using assms by (intro binade_mono) auto
  then have le: "ea \<le> eb" by (simp add: ea_def eb_def)
  have ua: "ulp a = pow2 (ea - 52)" and ub: "ulp b = pow2 (eb - 52)"
    by (simp_all add: ulp_def ea_def eb_def)
  have ra: "round_real a = of_int (rne (a / ulp a)) * ulp a"
    and rb: "round_real b = of_int (rne (b / ulp b)) * ulp b"
    using a0 b0 by (simp_all add: round_real_def)
  show ?thesis
  proof (cases "ea = eb")
    case True
    then have u: "ulp a = ulp b" by (simp add: ua ub)
    have "a / ulp b \<le> b / ulp b" using assms by (intro divide_right_mono) auto
    then have "rne (a / ulp b) \<le> rne (b / ulp b)" by (rule rne_mono)
    then have "real_of_int (rne (a / ulp b)) * ulp b \<le> real_of_int (rne (b / ulp b)) * ulp b"
      by simp
    then show ?thesis by (simp add: ra rb u)
  next
    case False
    with le have lt: "ea < eb" by simp
    then have ebb: "eb = binade b" by (auto simp: ea_def eb_def max_def split: if_splits)
    have "binade a \<le> ea" by (simp add: ea_def)
    with lt ebb have s: "binade a + 1 \<le> binade b" by simp
    define p where "p = pow2 (binade b)"
    have "a < pow2 (binade a + 1)" using binade_bounds [OF a0] assms by simp
    also have "\<dots> \<le> p" unfolding p_def using s by (rule pow2_mono)
    finally have ap: "a \<le> p" by simp
    have pb: "p \<le> b" using binade_bounds [OF b0] bpos by (simp add: p_def)
    define k where "k = nat (binade b - ea + 52)"
    have kk: "int k = binade b - (ea - 52)" using lt ebb by (simp add: k_def)
    have "p / ulp a = pow2 (int k)" by (simp add: p_def ua kk pow2_diff)
    then have pa: "p / ulp a = real_of_int (2 ^ k)" by (simp add: pow2_nat)
    have "a / ulp a \<le> p / ulp a" using ap by (intro divide_right_mono) auto
    then have "rne (a / ulp a) \<le> 2 ^ k" unfolding pa by (rule rne_le)
    then have "real_of_int (rne (a / ulp a)) \<le> real_of_int (2 ^ k)" by (simp only: of_int_le_iff)
    then have "real_of_int (rne (a / ulp a)) * ulp a \<le> real_of_int (2 ^ k) * ulp a"
      by (simp add: mult_right_mono)
    also have "real_of_int (2 ^ k) * ulp a = p" using ulp_nz pa by (rule div_eq_mult)
    finally have 1: "round_real a \<le> p" by (simp add: ra)
    have "pow2 (binade b - 52) * pow2 52 = pow2 (binade b)" by (simp add: pow2_add [symmetric])
    then have "p / ulp b = pow2 52" by (simp add: p_def ub ebb field_simps)
    moreover have "pow2 52 = real_of_int (2 ^ 52)" by (simp add: pow2_def)
    ultimately have pb2: "p / ulp b = real_of_int (2 ^ 52)" by (simp only:)
    have "p / ulp b \<le> b / ulp b" using pb by (intro divide_right_mono) auto
    then have "2 ^ 52 \<le> rne (b / ulp b)" unfolding pb2 by (rule rne_ge)
    then have "real_of_int (2 ^ 52) \<le> real_of_int (rne (b / ulp b))" by (simp only: of_int_le_iff)
    then have A: "real_of_int (2 ^ 52) * ulp b \<le> real_of_int (rne (b / ulp b)) * ulp b"
      by (intro mult_right_mono) auto
    have B: "real_of_int (2 ^ 52) * ulp b = p" using ulp_nz pb2 by (rule div_eq_mult)
    have 2: "p \<le> round_real b" using A unfolding B rb .
    from 1 2 show ?thesis by simp
  qed
qed

lemma round_real_mono:
  assumes "a \<le> b"
  shows "round_real a \<le> round_real b"
proof -
  consider "0 < a" | "a \<le> 0" "0 \<le> b" | "b < 0" using assms by linarith
  then show ?thesis
  proof cases
    case 1
    then show ?thesis using assms by (rule round_real_mono_pos)
  next
    case 2
    have "0 \<le> round_real (- a)" using 2 by (intro round_real_nonneg) simp
    then have "round_real a \<le> 0" by (simp add: round_real_minus)
    moreover have "0 \<le> round_real b" using 2 by (intro round_real_nonneg)
    ultimately show ?thesis by simp
  next
    case 3
    have "round_real (- b) \<le> round_real (- a)"
      using 3 assms by (intro round_real_mono_pos) auto
    then show ?thesis by (simp add: round_real_minus)
  qed
qed

lemma round64_not_NaN [simp]: "round64 r \<noteq> NaN"
  by (simp add: round64_def Let_def)

lemma round64_mono: "a \<le> b \<Longrightarrow> fle (round64 a) (round64 b)"
  using round_real_mono [of a b] by (auto simp add: round64_def Let_def)

lemma round_real_grid:
  assumes "r = of_int k * ulp r"
  shows "round_real r = r"
proof (cases "r = 0")
  case True
  then show ?thesis by (simp add: round_real_def)
next
  case False
  have "r / ulp r = of_int k * ulp r / ulp r" using assms by simp
  then have "r / ulp r = of_int k" by simp
  then have "rne (r / ulp r) = k" by simp
  then show ?thesis using False assms by (simp add: round_real_def)
qed

lemma round_real_of_int:
  assumes "\<bar>n\<bar> < 2 ^ 53"
  shows "round_real (of_int n) = of_int n"
proof (cases "n = 0")
  case True
  then show ?thesis by (simp add: round_real_def)
next
  case False
  define r where "r = real_of_int n"
  have r1: "1 \<le> \<bar>r\<bar>" using False by (simp add: r_def)
  have r0: "r \<noteq> 0" using r1 by auto
  have "binade 1 = 0" using binade_unique [of 0 1] by (simp add: pow2_def)
  moreover have "binade 1 \<le> binade r" using r1 by (intro binade_mono) auto
  ultimately have e0: "0 \<le> binade r" by simp
  have "real_of_int \<bar>n\<bar> < real_of_int (2 ^ 53)" using assms by (simp only: of_int_less_iff)
  then have rlt: "\<bar>r\<bar> < pow2 53" by (simp add: r_def pow2_def)
  have e52: "binade r \<le> 52"
  proof (rule ccontr)
    assume "\<not> binade r \<le> 52"
    then have "pow2 53 \<le> pow2 (binade r)" by (intro pow2_mono) simp
    with binade_bounds [OF r0] rlt show False by linarith
  qed
  define j where "j = nat (52 - binade r)"
  have u: "ulp r = pow2 (- int j)" using e0 e52 by (simp add: ulp_def j_def max_def)
  have "pow2 (int j) * pow2 (- int j) = 1" by (simp add: pow2_add [symmetric] pow2_def)
  then have "real_of_int n * (pow2 (int j) * pow2 (- int j)) = r" by (simp add: r_def)
  then have "real_of_int (n * 2 ^ j) * pow2 (- int j) = r" by (simp add: pow2_nat mult.assoc)
  then have "r = of_int (n * 2 ^ j) * ulp r" by (simp only: u)
  then show ?thesis unfolding r_def [symmetric] by (rule round_real_grid)
qed

lemma round64_of_int:
  assumes "\<bar>n\<bar> < 2 ^ 53"
  shows "round64 (of_int n) = Fin (of_int n)"
proof -
  have "\<bar>real_of_int n\<bar> < real_of_int (2 ^ 53)"
    using assms by (metis of_int_abs of_int_less_iff)
  moreover have "real_of_int (2 ^ 53) < 2 ^ 1024" by simp
  ultimately have "\<bar>real_of_int n\<bar> < 2 ^ 1024" by linarith
  then have "\<not> 2 ^ 1024 \<le> round_real (of_int n)" "\<not> round_real (of_int n) \<le> - (2 ^ 1024)"
    unfolding round_real_of_int [OF assms] by linarith+
  then show ?thesis
    unfolding round64_def Let_def by (simp only: if_False round_real_of_int [OF assms])
qed

section \<open>Properties of the float64 operations\<close>

lemma round64_numeral [simp]:
  "numeral k < (2::int) ^ 53 \<Longrightarrow> round64 (numeral k) = Fin (numeral k)"
  using round64_of_int [of "numeral k"] by simp

lemma round64_zero [simp]: "round64 0 = Fin 0"
  using round64_of_int [of 0] by simp

lemma round64_one [simp]: "round64 1 = Fin 1"
  using round64_of_int [of 1] by simp

lemma float64_mono: "m \<le> n \<Longrightarrow> fle (float64 m) (float64 n)"
  by (simp add: float64_def round64_mono)

lemma fadd_NaN_right [simp]: "fadd x NaN = NaN"
  by (cases x) simp_all

lemma fmul_NaN_right [simp]: "fmul x NaN = NaN"
  by (cases x) simp_all

lemma fle_NInf [simp]: "fle NInf z \<longleftrightarrow> z \<noteq> NaN"
  by (cases z) simp_all

lemma fle_PInf [simp]: "fle z PInf \<longleftrightarrow> z \<noteq> NaN"
  by (cases z) simp_all

lemma fle_refl: "x \<noteq> NaN \<Longrightarrow> fle x x"
  by (cases x) simp_all

lemma mle_refl [simp]: "mle x x"
  by (cases x) (simp_all add: mle_def)

lemma fle_mle: "fle x y \<Longrightarrow> mle x y"
  by (simp add: mle_def)

lemma mle_not_flt: "mle x y \<Longrightarrow> \<not> flt y x"
  by (cases x; cases y) (simp_all add: mle_def)

lemma fneg_mle: "mle x y \<Longrightarrow> mle (fneg y) (fneg x)"
  by (cases x; cases y) (simp_all add: mle_def)

lemma fadd_mle_left: "mle x x' \<Longrightarrow> mle (fadd x y) (fadd x' y)"
  by (cases x; cases x'; cases y) (simp_all add: mle_def round64_mono)

lemma fadd_mle_right: "mle y y' \<Longrightarrow> mle (fadd x y) (fadd x y')"
  by (cases x; cases y; cases y') (simp_all add: mle_def round64_mono)

lemma fsub_mle_left: "mle x x' \<Longrightarrow> mle (fsub x y) (fsub x' y)"
  by (simp add: fsub_def fadd_mle_left)

lemma fsub_mle_right: "mle y y' \<Longrightarrow> mle (fsub x y') (fsub x y)"
  by (simp add: fsub_def fadd_mle_right fneg_mle)

lemma fmul_mle_left: "0 < c \<Longrightarrow> mle x x' \<Longrightarrow> mle (fmul x (Fin c)) (fmul x' (Fin c))"
  by (cases x; cases x') (simp_all add: mle_def round64_mono inf_times_def)

lemma math_Min_mle: "mle y y' \<Longrightarrow> mle (math_Min (Fin c) y) (math_Min (Fin c) y')"
  by (cases y; cases y') (auto simp add: mle_def math_Min_def)

lemma math_Max_mle: "mle y y' \<Longrightarrow> mle (math_Max (Fin c) y) (math_Max (Fin c) y')"
  by (cases y; cases y') (auto simp add: mle_def math_Max_def)

lemma score_of_mle:
  assumes "mle (rawScore sl st d s ex) (rawScore sl' st' d' s' ex')"
  shows "mle (score_of sl st d s ex) (score_of sl' st' d' s' ex')"
  unfolding score_of_def using assms by (intro math_Max_mle math_Min_mle)

lemma rawScore_mle_deadlines:
  "d \<le> d' \<Longrightarrow> mle (rawScore sl st d s ex) (rawScore sl st d' s ex)"
  unfolding rawScore_def
  by (intro fsub_mle_left fadd_mle_left fmul_mle_left fle_mle float64_mono) simp_all

lemma rawScore_mle_stress:
  "s \<le> s' \<Longrightarrow> mle (rawScore sl st d s ex) (rawScore sl st d s' ex)"
  unfolding rawScore_def
  by (intro fsub_mle_left fadd_mle_left fadd_mle_right fmul_mle_left fle_mle float64_mono)
     simp_all

lemma rawScore_mle_studyHours:
  "fle st st' \<Longrightarrow> mle (rawScore sl st d s ex) (rawScore sl st' d s ex)"
  unfolding rawScore_def
  by (intro fsub_mle_left fadd_mle_right fmul_mle_left fle_mle) simp_all

lemma rawScore_mle_sleep:
  "fle sl sl' \<Longrightarrow> mle (rawScore sl' st d s ex) (rawScore sl st d s ex)"
  unfolding rawScore_def sleepPenalty_def
  by (intro fsub_mle_left fadd_mle_left fadd_mle_right fmul_mle_left fsub_mle_right fle_mle)
     simp_all

lemma rawScore_mle_exercise:
  "mle (rawScore sl st d s True) (rawScore sl st d s False)"
  unfolding rawScore_def exerciseBonus_def
  by (intro fsub_mle_right fle_mle) simp_all

lemma rawScore_example: "rawScore (Fin 0) (Fin 20) 10 5 False = Fin 284"
  by (simp add: rawScore_def sleepPenalty_def exerciseBonus_def float64_def fsub_def)

lemma score_of_example: "score_of (Fin 0) (Fin 20) 10 5 False = Fin 100"
  by (simp add: score_of_def rawScore_example math_Min_def math_Max_def)

lemma score_of_NaN_sleep: "score_of NaN (Fin 20) 10 5 False = NaN"
  by (simp add: score_of_def rawScore_def sleepPenalty_def exerciseBonus_def float64_def
      fsub_def math_Min_def math_Max_def)

lemma clamp_code_spec:
  "math_Max (Fin 0) (math_Min (Fin 100) x) = spec_clamp x (Fin 0) (Fin 100)"
  by (cases x) (auto simp add: spec_clamp_def math_Min_def math_Max_def)

lemma clamp_range:
  "x \<noteq> NaN \<Longrightarrow>
     fle (Fin 0) (math_Max (Fin 0) (math_Min (Fin 100) x)) \<and>
     fle (math_Max (Fin 0) (math_Min (Fin 100) x)) (Fin 100)"
  by (cases x) (auto simp add: math_Min_def math_Max_def)

section \<open>The score\<close>

text \<open>
  C1, as the code has it. The score is the raw score of the formula clamped to
  \<open>[0, 100]\<close>, for every input, and it lies in \<open>[0, 100]\<close> whenever the raw score is
  not NaN. With sleep 0, 10 deadlines, stress 5, 20 study hours and no exercise the raw
  score is 284 and the score is 100.
\<close>

theorem score_is_clamped_raw_score:
  "score_of sl st d s ex = spec_score sl st d s ex \<and>
   (rawScore sl st d s ex \<noteq> NaN \<longrightarrow>
      fle (Fin 0) (score_of sl st d s ex) \<and> fle (score_of sl st d s ex) (Fin 100)) \<and>
   rawScore (Fin 0) (Fin 20) 10 5 False = Fin 284 \<and>
   score_of (Fin 0) (Fin 20) 10 5 False = Fin 100"
proof (intro conjI impI)
  show "score_of sl st d s ex = spec_score sl st d s ex"
    unfolding score_of_def spec_score_def rawScore_def sleepPenalty_def exerciseBonus_def
    by (rule clamp_code_spec)
next
  assume "rawScore sl st d s ex \<noteq> NaN"
  then show "fle (Fin 0) (score_of sl st d s ex)" and "fle (score_of sl st d s ex) (Fin 100)"
    unfolding score_of_def using clamp_range by blast+
next
  show "rawScore (Fin 0) (Fin 20) 10 5 False = Fin 284" by (rule rawScore_example)
next
  show "score_of (Fin 0) (Fin 20) 10 5 False = Fin 100" by (rule score_of_example)
qed

theorem score_is_clamped_raw_score_witness:
  "rawScore (Fin 0) (Fin 20) 10 5 False \<noteq> NaN \<and>
   fle (Fin 0) (score_of (Fin 0) (Fin 20) 10 5 False) \<and>
   fle (score_of (Fin 0) (Fin 20) 10 5 False) (Fin 100)"
  using score_is_clamped_raw_score [of "Fin 0" "Fin 20" 10 5 False, THEN conjunct2] by simp

text \<open>
  C1, as it is stated, fails where a float input is NaN (the text \<open>NaN\<close> parses to it
  without an error): with sleep NaN the score is NaN, which is not in \<open>[0, 100]\<close>.
\<close>

theorem score_out_of_range_counterexample:
  "\<not> (fle (Fin 0) (score_of NaN (Fin 20) 10 5 False) \<and>
      fle (score_of NaN (Fin 20) 10 5 False) (Fin 100))"
  by (simp add: score_of_NaN_sleep)

text \<open>
  C10. Raising deadlines, stress or study hours never lowers the score, raising sleep
  never raises it, and the score with exercise is never above the score without: the
  one score is not below the other by Go's \<open><\<close>, and is at most the other by \<open>\<le>\<close> unless
  one of the two is NaN.
\<close>

theorem score_monotone:
  "(d \<le> d' \<longrightarrow>
      mle (score_of sl st d s ex) (score_of sl st d' s ex) \<and>
      \<not> flt (score_of sl st d' s ex) (score_of sl st d s ex)) \<and>
   (s \<le> s' \<longrightarrow>
      mle (score_of sl st d s ex) (score_of sl st d s' ex) \<and>
      \<not> flt (score_of sl st d s' ex) (score_of sl st d s ex)) \<and>
   (fle st st' \<longrightarrow>
      mle (score_of sl st d s ex) (score_of sl st' d s ex) \<and>
      \<not> flt (score_of sl st' d s ex) (score_of sl st d s ex)) \<and>
   (fle sl sl' \<longrightarrow>
      mle (score_of sl' st d s ex) (score_of sl st d s ex) \<and>
      \<not> flt (score_of sl st d s ex) (score_of sl' st d s ex)) \<and>
   mle (score_of sl st d s True) (score_of sl st d s False) \<and>
   \<not> flt (score_of sl st d s False) (score_of sl st d s True)"
proof -
  have 1: "mle (score_of sl st d s ex) (score_of sl st d' s ex)" if "d \<le> d'"
    using that by (intro score_of_mle rawScore_mle_deadlines)
  have 2: "mle (score_of sl st d s ex) (score_of sl st d s' ex)" if "s \<le> s'"
    using that by (intro score_of_mle rawScore_mle_stress)
  have 3: "mle (score_of sl st d s ex) (score_of sl st' d s ex)" if "fle st st'"
    using that by (intro score_of_mle rawScore_mle_studyHours)
  have 4: "mle (score_of sl' st d s ex) (score_of sl st d s ex)" if "fle sl sl'"
    using that by (intro score_of_mle rawScore_mle_sleep)
  have 5: "mle (score_of sl st d s True) (score_of sl st d s False)"
    by (intro score_of_mle rawScore_mle_exercise)
  from 1 2 3 4 5 show ?thesis
    by (intro conjI impI mle_not_flt) simp_all
qed

theorem score_monotone_witness:
  "(1::int) \<le> 2 \<and> (2::int) \<le> 3 \<and> fle (Fin 2) (Fin 3) \<and> fle (Fin 6) (Fin 7) \<and>
   \<not> flt (score_of (Fin 6) (Fin 2) 2 2 False) (score_of (Fin 6) (Fin 2) 1 2 False) \<and>
   \<not> flt (score_of (Fin 6) (Fin 2) 1 3 False) (score_of (Fin 6) (Fin 2) 1 2 False) \<and>
   \<not> flt (score_of (Fin 6) (Fin 3) 1 2 False) (score_of (Fin 6) (Fin 2) 1 2 False) \<and>
   \<not> flt (score_of (Fin 6) (Fin 2) 1 2 False) (score_of (Fin 7) (Fin 2) 1 2 False)"
  using score_monotone [where d = 1 and d' = 2 and s = 2 and s' = 3 and st = "Fin 2"
      and st' = "Fin 3" and sl = "Fin 6" and sl' = "Fin 7" and ex = False]
  by simp

section \<open>The risk tier\<close>

lemma round64_30_0001: "round64 (300001 / 10000) = Fin (8444277448817351 / 281474976710656)"
proof -
  have "round_real (300001 / 10000) = 8444277448817351 / 281474976710656" by code_simp
  then show ?thesis by (simp add: round64_def)
qed

lemma round64_80_0001: "round64 (800001 / 10000) = Fin (2814753285543769 / 35184372088832)"
proof -
  have "round_real (800001 / 10000) = 2814753285543769 / 35184372088832" by code_simp
  then show ?thesis by (simp add: round64_def)
qed

text \<open>
  C2. The level is decided by the score alone, against inclusive upper bounds: at most
  30 is Healthy, above 30 and at most 60 is At Risk, above 60 and at most 80 is High
  Risk, above 80 is Severe Burnout; so 30 is Healthy, 30.0001 At Risk, 80 High Risk and
  80.0001 Severe Burnout.
\<close>

theorem level_by_score:
  "(fle score (Fin 30) \<longrightarrow> level_of score = level_Healthy) \<and>
   (flt (Fin 30) score \<and> fle score (Fin 60) \<longrightarrow> level_of score = level_AtRisk) \<and>
   (flt (Fin 60) score \<and> fle score (Fin 80) \<longrightarrow> level_of score = level_HighRisk) \<and>
   (flt (Fin 80) score \<longrightarrow> level_of score = level_Severe) \<and>
   level_of (Fin 30) = level_Healthy \<and>
   level_of (round64 (300001 / 10000)) = level_AtRisk \<and>
   level_of (Fin 80) = level_HighRisk \<and>
   level_of (round64 (800001 / 10000)) = level_Severe"
  unfolding round64_30_0001 round64_80_0001
  by (cases score) (simp_all add: level_of_def category_def)

theorem level_by_score_witness:
  "fle (Fin 12) (Fin 30) \<and> level_of (Fin 12) = level_Healthy \<and>
   flt (Fin 30) (Fin 45) \<and> fle (Fin 45) (Fin 60) \<and> level_of (Fin 45) = level_AtRisk \<and>
   flt (Fin 60) (Fin 70) \<and> fle (Fin 70) (Fin 80) \<and> level_of (Fin 70) = level_HighRisk \<and>
   flt (Fin 80) (Fin 95) \<and> level_of (Fin 95) = level_Severe"
  using level_by_score [of "Fin 12"] level_by_score [of "Fin 45"]
    level_by_score [of "Fin 70"] level_by_score [of "Fin 95"]
  by simp

section \<open>The advice\<close>

text \<open>
  C7. The recommendation that closes the advice is the first that applies, in the fixed
  order: sleep below 5, else stress above 3, else more than 4 deadlines, else the
  default.
\<close>

theorem advice_action_by_priority:
  "generateAIAdvice k sleep deadlines stress score =
     intro ! k @ '' '' @ advice_body deadlines score @ '' '' @
     action_text (spec_action_kind sleep deadlines stress)"
  by (simp add: generateAIAdvice_def advice_action_def spec_action_kind_def action_text_def)

section \<open>The handlers and the store\<close>

text \<open>
  C5. A request to /calculate whose method is not POST is answered 405 Method not
  allowed, and the store is left as it was.
\<close>

theorem calculate_rejects_other_methods:
  "Method r \<noteq> ''POST'' \<Longrightarrow>
     handleCalculate w r db = (HttpError 405 ''Method not allowed'', db) \<and>
     status (fst (handleCalculate w r db)) = 405 \<and> snd (handleCalculate w r db) = db"
  by (simp add: handleCalculate_def status_def)

theorem calculate_rejects_other_methods_witness:
  "Method \<lparr>Method = ''GET'', FormValue = form_of [(''sleep'', ''7'')]\<rparr> \<noteq> ''POST'' \<and>
   handleCalculate sample_world \<lparr>Method = ''GET'', FormValue = form_of [(''sleep'', ''7'')]\<rparr>
     sample_store = (HttpError 405 ''Method not allowed'', sample_store)"
  using calculate_rejects_other_methods
    [of "\<lparr>Method = ''GET'', FormValue = form_of [(''sleep'', ''7'')]\<rparr>" sample_world sample_store]
  by simp

text \<open>
  C9. The migration drops the table and creates it again whatever the store holds:
  when it succeeds, and so whenever the process gets to serve, the entries table
  exists and is empty; and it succeeds unless the storage engine fails.
\<close>

theorem migration_resets_table:
  "(runMigrations dropFault createFault db = Inr db' \<longrightarrow> entries db' = Some []) \<and>
   (main openFault dropFault createFault db = Serving db' \<longrightarrow> entries db' = Some []) \<and>
   runMigrations None None db = Inr (db\<lparr>entries := Some [], seq := 0\<rparr>) \<and>
   main None None None db = Serving (db\<lparr>entries := Some [], seq := 0\<rparr>)"
  by (auto simp add: runMigrations_def main_def exec_drop_def exec_create_def
      split: option.splits sum.splits)

theorem migration_resets_table_witness:
  "runMigrations None None sample_store = Inr \<lparr>entries = Some [], seq = 0\<rparr> \<and>
   main None None None sample_store = Serving \<lparr>entries = Some [], seq = 0\<rparr> \<and>
   entries sample_store \<noteq> Some [] \<and>
   entries \<lparr>entries = Some [], seq = 0\<rparr> = Some []"
  using migration_resets_table [of None None sample_store "\<lparr>entries = Some [], seq = 0\<rparr>" None]
  by (simp add: sample_store_def)

lemma parseForm_mood:
  "parseForm w (r\<lparr>FormValue := (FormValue r)(''mood'' := m)\<rparr>) =
     (parseForm w r)\<lparr>in_mood := fst (Atoi w m)\<rparr>"
  by (simp add: parseForm_def)

text \<open>
  C8. Two submissions that differ only in the mood field get the same response, so the
  same score and level, and leave the same store up to the mood column; the mood is
  stored in the new row beside the score and the level.
\<close>

theorem mood_does_not_affect_score:
  "fst (handleCalculate w (r\<lparr>FormValue := (FormValue r)(''mood'' := m)\<rparr>) db) =
     fst (handleCalculate w r db) \<and>
   forget_mood (snd (handleCalculate w (r\<lparr>FormValue := (FormValue r)(''mood'' := m)\<rparr>) db)) =
     forget_mood (snd (handleCalculate w r db)) \<and>
   (Method r = ''POST'' \<and> insertFault w = None \<and> entries db = Some rows \<longrightarrow>
      (\<exists>e. entries (snd (handleCalculate w r db)) = Some (rows @ [e]) \<and>
           col_mood e = fst (Atoi w (FormValue r ''mood'')) \<and>
           col_score e = bind_real (score_of (in_sleep (parseForm w r))
             (in_studyHours (parseForm w r)) (in_deadlines (parseForm w r))
             (in_stress (parseForm w r)) (in_exercise (parseForm w r))) \<and>
           col_level e = level_of (score_of (in_sleep (parseForm w r))
             (in_studyHours (parseForm w r)) (in_deadlines (parseForm w r))
             (in_stress (parseForm w r)) (in_exercise (parseForm w r)))))"
proof (intro conjI impI)
  show "fst (handleCalculate w (r\<lparr>FormValue := (FormValue r)(''mood'' := m)\<rparr>) db) =
     fst (handleCalculate w r db)"
    by (simp add: handleCalculate_def parseForm_mood Let_def exec_insert_def
        split: option.splits prod.splits)
next
  show "forget_mood (snd (handleCalculate w (r\<lparr>FormValue := (FormValue r)(''mood'' := m)\<rparr>) db)) =
     forget_mood (snd (handleCalculate w r db))"
    by (simp add: handleCalculate_def parseForm_mood Let_def exec_insert_def forget_mood_def
        split: option.splits prod.splits)
next
  assume "Method r = ''POST'' \<and> insertFault w = None \<and> entries db = Some rows"
  then show "\<exists>e. entries (snd (handleCalculate w r db)) = Some (rows @ [e]) \<and>
           col_mood e = fst (Atoi w (FormValue r ''mood'')) \<and>
           col_score e = bind_real (score_of (in_sleep (parseForm w r))
             (in_studyHours (parseForm w r)) (in_deadlines (parseForm w r))
             (in_stress (parseForm w r)) (in_exercise (parseForm w r))) \<and>
           col_level e = level_of (score_of (in_sleep (parseForm w r))
             (in_studyHours (parseForm w r)) (in_deadlines (parseForm w r))
             (in_stress (parseForm w r)) (in_exercise (parseForm w r)))"
    by (simp add: handleCalculate_def Let_def exec_insert_def level_of_def parseForm_def
        split: prod.splits)
qed

theorem mood_does_not_affect_score_witness:
  "Method \<lparr>Method = ''POST'', FormValue = form_of [(''sleep'', ''7''), (''mood'', ''5'')]\<rparr> = ''POST'' \<and>
   insertFault sample_world = None \<and>
   entries \<lparr>entries = Some [], seq = 0\<rparr> = Some [] \<and>
   (\<exists>e. entries (snd (handleCalculate sample_world
            \<lparr>Method = ''POST'', FormValue = form_of [(''sleep'', ''7''), (''mood'', ''5'')]\<rparr>
            \<lparr>entries = Some [], seq = 0\<rparr>)) = Some [e] \<and>
        col_mood e = 5 \<and> col_score e = Some (Fin 8) \<and> col_level e = level_Healthy)"
proof -
  let ?r = "\<lparr>Method = ''POST'', FormValue = form_of [(''sleep'', ''7''), (''mood'', ''5'')]\<rparr>"
  have m: "Method ?r = ''POST''" and f: "insertFault sample_world = None"
    and e: "entries \<lparr>entries = Some [], seq = 0\<rparr> = Some []"
    by (simp_all add: sample_world_def)
  have p: "parseForm sample_world ?r =
      \<lparr>in_sleep = Fin 7, in_studyHours = Fin 0, in_deadlines = 0, in_mood = 5, in_stress = 0,
       in_exercise = False\<rparr>"
    by (simp add: parseForm_def sample_world_def form_of_def)
  have sc: "score_of (Fin 7) (Fin 0) 0 0 False = Fin 8"
    by (simp add: score_of_def rawScore_def sleepPenalty_def exerciseBonus_def float64_def
        fsub_def math_Min_def math_Max_def)
  have a: "fst (Atoi sample_world (form_of [(''sleep'', ''7''), (''mood'', ''5'')] ''mood'')) = 5"
    by (simp add: sample_world_def form_of_def)
  have l: "level_of (Fin 8) = level_Healthy" by (simp add: level_of_def category_def)
  show ?thesis
    using mood_does_not_affect_score [of sample_world ?r _ "\<lparr>entries = Some [], seq = 0\<rparr>" "[]",
        THEN conjunct2, THEN conjunct2] m f e
    by (simp add: p sc a l bind_real_def)
qed

lemma parseForm_float_field:
  assumes "strconv_contract w" "f = ''sleep'' \<or> f = ''study''"
    and "snd (ParseFloat w (FormValue r f)) = Some ErrSyntax" "ParseFloat w z = (Fin 0, None)"
  shows "parseForm w (r\<lparr>FormValue := (FormValue r)(f := z)\<rparr>) = parseForm w r"
  using assms by (auto simp add: parseForm_def strconv_contract_def)

lemma parseForm_int_field:
  assumes "strconv_contract w" "f = ''deadlines'' \<or> f = ''mood'' \<or> f = ''stress''"
    and "snd (Atoi w (FormValue r f)) = Some ErrSyntax" "Atoi w z = (0, None)"
  shows "parseForm w (r\<lparr>FormValue := (FormValue r)(f := z)\<rparr>) = parseForm w r"
  using assms by (auto simp add: parseForm_def strconv_contract_def)

lemma handleCalculate_cong:
  "Method r' = Method r \<Longrightarrow> parseForm w r' = parseForm w r \<Longrightarrow>
     handleCalculate w r' db = handleCalculate w r db"
  by (simp add: handleCalculate_def)

text \<open>
  C4. A numeric field that does not parse (a syntax error of strconv, whose value is 0)
  is not reported: the submission has the outcome, response and stored row, of the
  same submission with a 0 in that field, for each of the five numeric fields; and a
  POST is answered 200 whenever the store accepts the row.
\<close>

theorem malformed_field_counts_as_zero:
  assumes "strconv_contract w"
  shows "((f = ''sleep'' \<or> f = ''study'') \<and>
            snd (ParseFloat w (FormValue r f)) = Some ErrSyntax \<and>
            ParseFloat w z = (Fin 0, None) \<longrightarrow>
          handleCalculate w r db = handleCalculate w (r\<lparr>FormValue := (FormValue r)(f := z)\<rparr>) db) \<and>
         ((f = ''deadlines'' \<or> f = ''mood'' \<or> f = ''stress'') \<and>
            snd (Atoi w (FormValue r f)) = Some ErrSyntax \<and>
            Atoi w z = (0, None) \<longrightarrow>
          handleCalculate w r db = handleCalculate w (r\<lparr>FormValue := (FormValue r)(f := z)\<rparr>) db) \<and>
         (Method r = ''POST'' \<and> insertFault w = None \<and> entries db \<noteq> None \<longrightarrow>
          status (fst (handleCalculate w r db)) = 200)"
proof (intro conjI impI)
  assume a: "(f = ''sleep'' \<or> f = ''study'') \<and>
            snd (ParseFloat w (FormValue r f)) = Some ErrSyntax \<and>
            ParseFloat w z = (Fin 0, None)"
  have "parseForm w (r\<lparr>FormValue := (FormValue r)(f := z)\<rparr>) = parseForm w r"
    using assms a by (intro parseForm_float_field) simp_all
  then show "handleCalculate w r db = handleCalculate w (r\<lparr>FormValue := (FormValue r)(f := z)\<rparr>) db"
    by (intro handleCalculate_cong [symmetric]) simp_all
next
  assume a: "(f = ''deadlines'' \<or> f = ''mood'' \<or> f = ''stress'') \<and>
            snd (Atoi w (FormValue r f)) = Some ErrSyntax \<and>
            Atoi w z = (0, None)"
  have "parseForm w (r\<lparr>FormValue := (FormValue r)(f := z)\<rparr>) = parseForm w r"
    using assms a by (intro parseForm_int_field) simp_all
  then show "handleCalculate w r db = handleCalculate w (r\<lparr>FormValue := (FormValue r)(f := z)\<rparr>) db"
    by (intro handleCalculate_cong [symmetric]) simp_all
next
  assume "Method r = ''POST'' \<and> insertFault w = None \<and> entries db \<noteq> None"
  then show "status (fst (handleCalculate w r db)) = 200"
    by (auto simp add: handleCalculate_def Let_def exec_insert_def status_def
        split: prod.splits)
qed

lemma sample_world_contract: "strconv_contract sample_world"
  by (simp add: strconv_contract_def sample_world_def)

theorem malformed_field_counts_as_zero_witness:
  "strconv_contract sample_world \<and>
   snd (ParseFloat sample_world
     (FormValue \<lparr>Method = ''POST'', FormValue = form_of [(''sleep'', ''seven''), (''stress'', ''2'')]\<rparr> ''sleep''))
     = Some ErrSyntax \<and>
   ParseFloat sample_world ''0'' = (Fin 0, None) \<and>
   handleCalculate sample_world
     \<lparr>Method = ''POST'', FormValue = form_of [(''sleep'', ''seven''), (''stress'', ''2'')]\<rparr> sample_store =
   handleCalculate sample_world
     \<lparr>Method = ''POST'', FormValue = (form_of [(''sleep'', ''seven''), (''stress'', ''2'')])(''sleep'' := ''0'')\<rparr>
     sample_store \<and>
   snd (Atoi sample_world
     (FormValue \<lparr>Method = ''POST'', FormValue = form_of [(''sleep'', ''seven''), (''stress'', ''2'')]\<rparr> ''deadlines''))
     = Some ErrSyntax \<and>
   Atoi sample_world ''0'' = (0, None) \<and>
   handleCalculate sample_world
     \<lparr>Method = ''POST'', FormValue = form_of [(''sleep'', ''seven''), (''stress'', ''2'')]\<rparr> sample_store =
   handleCalculate sample_world
     \<lparr>Method = ''POST'', FormValue = (form_of [(''sleep'', ''seven''), (''stress'', ''2'')])(''deadlines'' := ''0'')\<rparr>
     sample_store \<and>
   insertFault sample_world = None \<and> entries sample_store \<noteq> None \<and>
   status (fst (handleCalculate sample_world
     \<lparr>Method = ''POST'', FormValue = form_of [(''sleep'', ''seven''), (''stress'', ''2'')]\<rparr> sample_store)) = 200"
proof -
  let ?r = "\<lparr>Method = ''POST'', FormValue = form_of [(''sleep'', ''seven''), (''stress'', ''2'')]\<rparr>"
  have f1: "snd (ParseFloat sample_world (FormValue ?r ''sleep'')) = Some ErrSyntax"
    and f2: "ParseFloat sample_world ''0'' = (Fin 0, None)"
    and i1: "snd (Atoi sample_world (FormValue ?r ''deadlines'')) = Some ErrSyntax"
    and i2: "Atoi sample_world ''0'' = (0, None)"
    and s1: "insertFault sample_world = None" and s2: "entries sample_store \<noteq> None"
    by (simp_all add: sample_world_def sample_store_def form_of_def)
  note c = sample_world_contract
  note sleep = malformed_field_counts_as_zero [OF c, of "''sleep''" ?r "''0''" sample_store]
  note deadlines = malformed_field_counts_as_zero [OF c, of "''deadlines''" ?r "''0''" sample_store]
  have e1: "handleCalculate sample_world ?r sample_store =
      handleCalculate sample_world
        \<lparr>Method = ''POST'', FormValue = (form_of [(''sleep'', ''seven''), (''stress'', ''2'')])(''sleep'' := ''0'')\<rparr>
        sample_store"
    using sleep f1 f2 by simp
  have e2: "handleCalculate sample_world ?r sample_store =
      handleCalculate sample_world
        \<lparr>Method = ''POST'', FormValue = (form_of [(''sleep'', ''seven''), (''stress'', ''2'')])(''deadlines'' := ''0'')\<rparr>
        sample_store"
    using deadlines i1 i2 by simp
  have e3: "status (fst (handleCalculate sample_world ?r sample_store)) = 200"
    using sleep s1 s2 by simp
  from c f1 f2 e1 i1 i2 e2 s1 s2 e3 show ?thesis by (intro conjI)
qed

lemma digit_char_simps:
  "digit_char 0 = CHR ''0''" "digit_char 1 = CHR ''1''" "digit_char 2 = CHR ''2''"
  "digit_char 3 = CHR ''3''" "digit_char 4 = CHR ''4''" "digit_char 5 = CHR ''5''"
  "digit_char 6 = CHR ''6''" "digit_char 7 = CHR ''7''" "digit_char 8 = CHR ''8''"
  "digit_char 9 = CHR ''9''" "digit_char (Suc 0) = CHR ''1''"
  by code_simp+

lemma find_bad_None: "find (\<lambda>x. \<not> json_ok x) xs = None \<longleftrightarrow> list_all json_ok xs"
  by (auto simp add: find_None_iff list_all_iff)

lemma scan_rows_decodable:
  "scan_rows rows (ls, ds) =
     (ls @ map (\<lambda>p. Format_1504 (fst p)) (decodable rows), ds @ map snd (decodable rows))"
  by (induction rows arbitrary: ls ds rule: decodable.induct) (simp_all add: Scan_def)

text \<open>
  C6. Whenever /history-chart returns the JSON object, its labels and data have the
  same length: a row that does not decode is left out of both, and the rows that do
  decode are returned, each with its label and its score at the same index.
\<close>

theorem chart_arrays_parallel:
  "(handleChartData eng db = JsonChart c \<longrightarrow> length (Labels c) = length (Data c)) \<and>
   (db_Query eng db = Inr rows \<and>
    list_all json_ok (map snd (decodable (take (delivered eng) rows))) \<longrightarrow>
      handleChartData eng db =
        JsonChart \<lparr>Labels = map (\<lambda>p. Format_1504 (fst p)) (decodable (take (delivered eng) rows)),
                   Data = map snd (decodable (take (delivered eng) rows))\<rparr>)"
proof (intro conjI impI)
  assume "handleChartData eng db = JsonChart c"
  then show "length (Labels c) = length (Data c)"
    by (auto simp add: handleChartData_def scan_rows_decodable split: sum.splits option.splits)
next
  assume a: "db_Query eng db = Inr rows \<and>
    list_all json_ok (map snd (decodable (take (delivered eng) rows)))"
  then have "find (\<lambda>x. \<not> json_ok x) (map snd (decodable (take (delivered eng) rows))) = None"
    by (simp only: find_bad_None)
  with a show "handleChartData eng db =
        JsonChart \<lparr>Labels = map (\<lambda>p. Format_1504 (fst p)) (decodable (take (delivered eng) rows)),
                   Data = map snd (decodable (take (delivered eng) rows))\<rparr>"
    by (simp add: handleChartData_def scan_rows_decodable)
qed

lemma sample_query:
  "db_Query sample_engine sample_store = Inr [(47000, Some (Fin 8)), (47100, Some (Fin 30)), (47100, None)]"
  by (simp add: db_Query_def sample_engine_def sample_store_def RecentSeries_def recent_def
      sample_row_def)

theorem chart_arrays_parallel_witness:
  "db_Query sample_engine sample_store =
     Inr [(47000, Some (Fin 8)), (47100, Some (Fin 30)), (47100, None)] \<and>
   handleChartData sample_engine sample_store =
     JsonChart \<lparr>Labels = [''13:03'', ''13:05''], Data = [Fin 8, Fin 30]\<rparr> \<and>
   length (Labels \<lparr>Labels = [''13:03'', ''13:05''], Data = [Fin 8, Fin 30]\<rparr>) =
   length (Data \<lparr>Labels = [''13:03'', ''13:05''], Data = [Fin 8, Fin 30]\<rparr>)"
proof -
  have d: "delivered sample_engine = 10" by (simp add: sample_engine_def)
  have l: "Format_1504 47000 = ''13:03''" "Format_1504 47100 = ''13:05''"
    by (simp_all add: Format_1504_def two_digits_def digit_char_simps)
  have "handleChartData sample_engine sample_store =
     JsonChart \<lparr>Labels = [''13:03'', ''13:05''], Data = [Fin 8, Fin 30]\<rparr>"
    using chart_arrays_parallel [of sample_engine sample_store _
        "[(47000, Some (Fin 8)), (47100, Some (Fin 30)), (47100, None)]", THEN conjunct2]
      sample_query
    by (simp add: d json_ok_def l)
  then show ?thesis using sample_query by simp
qed

lemma mset_take_drop: "mset xs = mset (take n xs) + mset (drop n xs)"
  by (metis append_take_drop_id mset_append)

lemma sorted_desc_rev_sort_key:
  "sorted_wrt (\<lambda>a b. f b \<le> f a) (rev (sort_key f xs))"
proof -
  have "sorted_wrt (\<lambda>a b. f a \<le> f b) (sort_key f xs)"
    using sorted_sort_key [of f xs] by (simp only: sorted_map)
  then show ?thesis by (simp add: sorted_wrt_rev)
qed

lemma sample_engine_sorts: "sorts sample_engine"
  by (simp add: sorts_def sample_engine_def sorted_desc_rev_sort_key)

text \<open>
  C3. The series of /history-chart has ten pairs, or all of them when the table holds
  fewer; it is in non-decreasing order of creation timestamp; and it is made of the
  most recent rows: no row left out has a later timestamp than a row taken. This holds
  for any number of rows and however the engine orders equal timestamps.
\<close>

theorem RecentSeries_last_ten:
  assumes "sorts eng"
  shows "length (RecentSeries eng rows) = min 10 (length rows) \<and>
         sorted (map fst (RecentSeries eng rows)) \<and>
         mset (RecentSeries eng rows) =
           mset (map (\<lambda>e. (col_created_at e, col_score e)) (recent eng rows)) \<and>
         mset (recent eng rows) \<subseteq># mset rows \<and>
         (\<forall>e \<in># mset (recent eng rows). \<forall>e' \<in># mset rows - mset (recent eng rows).
            col_created_at e' \<le> col_created_at e)"
proof -
  define d where "d = order_desc eng rows"
  have md: "mset d = mset rows"
    and sd: "sorted_wrt (\<lambda>a b. col_created_at b \<le> col_created_at a) d"
    using assms by (simp_all add: sorts_def d_def)
  have ma: "\<And>ps. mset (order_asc eng ps) = mset ps"
    and sa: "\<And>ps. sorted (map fst (order_asc eng ps))"
    using assms by (simp_all add: sorts_def)
  have r: "recent eng rows = take 10 d" by (simp add: recent_def d_def)
  have ld: "length d = length rows" using md by (rule mset_eq_length)
  have m: "mset (RecentSeries eng rows) =
      mset (map (\<lambda>e. (col_created_at e, col_score e)) (recent eng rows))"
    by (simp add: RecentSeries_def ma)
  then have "length (RecentSeries eng rows) =
      length (map (\<lambda>e. (col_created_at e, col_score e)) (recent eng rows))"
    by (rule mset_eq_length)
  then have 1: "length (RecentSeries eng rows) = min 10 (length rows)"
    by (simp add: r ld min.commute)
  have 2: "sorted (map fst (RecentSeries eng rows))" by (simp add: RecentSeries_def sa)
  have split: "mset rows = mset (take 10 d) + mset (drop 10 d)"
    using mset_take_drop [of d 10] md by simp
  then have 4: "mset (recent eng rows) \<subseteq># mset rows" by (simp add: r)
  have rest: "mset rows - mset (take 10 d) = mset (drop 10 d)"
    by (simp add: split)
  have "sorted_wrt (\<lambda>a b. col_created_at b \<le> col_created_at a) (take 10 d @ drop 10 d)"
    using sd by simp
  then have "\<forall>e \<in> set (take 10 d). \<forall>e' \<in> set (drop 10 d). col_created_at e' \<le> col_created_at e"
    unfolding sorted_wrt_append by blast
  then have 5: "\<forall>e \<in># mset (recent eng rows). \<forall>e' \<in># mset rows - mset (recent eng rows).
            col_created_at e' \<le> col_created_at e"
    by (simp add: rest r)
  from 1 2 m 4 5 show ?thesis by (intro conjI)
qed

lemma sample_series:
  "map fst (RecentSeries sample_engine twelve_rows) =
     [47180, 47240, 47300, 47360, 47420, 47480, 47540, 47600, 47660, 47720]"
  by (simp add: RecentSeries_def recent_def sample_engine_def twelve_rows_def sample_row_def)

theorem RecentSeries_last_ten_witness:
  "sorts sample_engine \<and>
   length twelve_rows = 12 \<and>
   map fst (RecentSeries sample_engine twelve_rows) =
     [47180, 47240, 47300, 47360, 47420, 47480, 47540, 47600, 47660, 47720] \<and>
   length (RecentSeries sample_engine twelve_rows) = 10 \<and>
   sorted (map fst (RecentSeries sample_engine twelve_rows)) \<and>
   mset (recent sample_engine twelve_rows) \<subseteq># mset twelve_rows"
  using RecentSeries_last_ten [OF sample_engine_sorts, of twelve_rows] sample_engine_sorts
    sample_series
  by (simp add: twelve_rows_def)

end
